theory Spec2Isabelle
  imports Main "HOL-Library.Word"
begin

section \<open>Values, errors and outcomes\<close>

text \<open>
  The development embeds the connection layer of the vendored key-value store client
  (\<^verbatim>\<open>vendor/github.com/piaohao/godis/connection.go\<close>) and the parts of
  \<^verbatim>\<open>redis.go\<close> that route \<^verbatim>\<open>Close\<close> and guard the simple commands.

  Go's \<^verbatim>\<open>int\<close>, \<^verbatim>\<open>int64\<close> and \<^verbatim>\<open>time.Duration\<close> are 64-bit
  two's complement words (a 64-bit platform); \<open>+\<close> and \<open>-\<close> wrap, and comparisons read
  them with \<open>sint\<close>. Go strings and byte slices are lists of 8-bit characters.
\<close>

type_synonym bytes = string
type_synonym int64 = "64 word"
type_synonym sock = nat
type_synonym pool = nat

text \<open>The error values the package constructs (\<^verbatim>\<open>newConnectError\<close>,
  \<^verbatim>\<open>newDataError\<close>) and one more kind for what the decoder may hand back.\<close>

datatype err = ConnectError string | DataError string | RedisError string

text \<open>
  A decoded reply is an \<^verbatim>\<open>interface{}\<close>: a value with a dynamic type. The
  constructors are the dynamic types the accessors test for or assert, the untyped
  \<^verbatim>\<open>nil\<close>, and \<open>VOther\<close> for a value of any other dynamic type (named by its type).
\<close>

datatype val =
    VNil
  | VString string
  | VBytes bytes
  | VByte char
  | VInt64 int64
  | VInt64s "int64 list"
  | VSlice "val list"
  | VErr err
  | VOther string

text \<open>
  A Go function returns its value together with an \<^verbatim>\<open>error\<close> (\<open>None\<close> is
  \<^verbatim>\<open>nil\<close>), or panics: a failed type assertion or a nil pointer dereference.
\<close>

datatype 'a outcome = Return 'a "err option" | Panic

section \<open>The network\<close>

text \<open>
  Everything below the connection (the dialer, the socket, the buffered codec streams
  of \<^verbatim>\<open>protocol\<close>, the pool) is outside the embedded files. It is a world that
  holds, for each kind of call, the outcomes of the calls still to come, and a log of the
  calls made so far. A call appends its event to the log and takes the next outcome; when
  none is left the call fails. "No network I/O" is: the world is unchanged.

  The streams and the pool are taken to act on the world only: the fields of the
  connection are written by \<^verbatim>\<open>connection.go\<close> alone.
\<close>

datatype event =
    EvDial string int64 int64
  | EvSetDeadline sock "int64 option"
  | EvWrite sock bytes "bytes list"
  | EvFlush sock
  | EvRead sock
  | EvClose sock
  | EvReturnBroken pool
  | EvReturn pool

record world =
  dials :: "(string + sock) list"
  deadlines :: "string option list"
  writes :: "err option list"
  flushes :: "string option list"
  reads :: "(err + val) list"
  closes :: "err option list"
  returns :: "err option list"
  log :: "event list"

definition net_DialTimeout :: "string \<Rightarrow> int64 \<Rightarrow> int64 \<Rightarrow> world \<Rightarrow> (string + sock) \<times> world" where
  "net_DialTimeout h p t w =
     (let w1 = w\<lparr>log := log w @ [EvDial h p t]\<rparr>
      in case dials w of
           [] \<Rightarrow> (Inl ''dial: network unreachable'', w1)
         | d # ds \<Rightarrow> (d, w1\<lparr>dials := ds\<rparr>))"

definition SetDeadline :: "sock \<Rightarrow> int64 option \<Rightarrow> world \<Rightarrow> string option \<times> world" where
  "SetDeadline s d w =
     (let w1 = w\<lparr>log := log w @ [EvSetDeadline s d]\<rparr>
      in case deadlines w of
           [] \<Rightarrow> (Some ''set deadline: use of closed connection'', w1)
         | r # rs \<Rightarrow> (r, w1\<lparr>deadlines := rs\<rparr>))"

definition socket_Close :: "sock \<Rightarrow> world \<Rightarrow> err option \<times> world" where
  "socket_Close s w =
     (let w1 = w\<lparr>log := log w @ [EvClose s]\<rparr>
      in case closes w of
           [] \<Rightarrow> (Some (ConnectError ''close: use of closed connection''), w1)
         | r # rs \<Rightarrow> (r, w1\<lparr>closes := rs\<rparr>))"

text \<open>The codec: an output stream and an input stream, both bound to a socket.\<close>

datatype protocol = Protocol (os: sock) (is': sock)

definition protocol_sendCommand ::
  "protocol \<Rightarrow> bytes \<Rightarrow> bytes list \<Rightarrow> world \<Rightarrow> err option \<times> world" where
  "protocol_sendCommand p cmd args w =
     (let w1 = w\<lparr>log := log w @ [EvWrite (os p) cmd args]\<rparr>
      in case writes w of
           [] \<Rightarrow> (Some (ConnectError ''write: broken pipe''), w1)
         | r # rs \<Rightarrow> (r, w1\<lparr>writes := rs\<rparr>))"

definition os_flush :: "protocol \<Rightarrow> world \<Rightarrow> string option \<times> world" where
  "os_flush p w =
     (let w1 = w\<lparr>log := log w @ [EvFlush (os p)]\<rparr>
      in case flushes w of
           [] \<Rightarrow> (Some ''flush: broken pipe'', w1)
         | r # rs \<Rightarrow> (r, w1\<lparr>flushes := rs\<rparr>))"

definition protocol_read :: "protocol \<Rightarrow> world \<Rightarrow> (err + val) \<times> world" where
  "protocol_read p w =
     (let w1 = w\<lparr>log := log w @ [EvRead (is' p)]\<rparr>
      in case reads w of
           [] \<Rightarrow> (Inl (ConnectError ''read: i/o timeout''), w1)
         | r # rs \<Rightarrow> (r, w1\<lparr>reads := rs\<rparr>))"

section \<open>The connection\<close>

record connection =
  host :: string
  port :: int64
  connectionTimeout :: int64
  soTimeout :: int64
  socket :: "sock option"
  protocol :: "protocol option"
  broken :: bool
  pipelinedCommands :: int64

text \<open>The package's defaults are declared outside the embedded files: a parameter.\<close>

record defaults =
  defaultHost :: string
  defaultPort :: int64
  defaultTimeout :: int64

definition newConnection ::
  "defaults \<Rightarrow> string \<Rightarrow> int64 \<Rightarrow> int64 \<Rightarrow> int64 \<Rightarrow> connection" where
  "newConnection d host0 port0 connectionTimeout0 soTimeout0 =
     (let host1 = (if host0 = [] then defaultHost d else host0);
          port1 = (if port0 = 0 then defaultPort d else port0);
          connectionTimeout1 =
            (if connectionTimeout0 = 0 then defaultTimeout d else connectionTimeout0);
          soTimeout1 = (if soTimeout0 = 0 then defaultTimeout d else soTimeout0)
      in \<lparr>host = host1, port = port1, connectionTimeout = connectionTimeout1,
          soTimeout = soTimeout1, socket = None, protocol = None, broken = False,
          pipelinedCommands = 0\<rparr>)"

definition isConnected :: "connection \<Rightarrow> bool" where
  "isConnected c = (if socket c = None then False else True)"

definition connect :: "connection \<Rightarrow> world \<Rightarrow> unit outcome \<times> connection \<times> world" where
  "connect c w =
     (if isConnected c then (Return () None, c, w)
      else case net_DialTimeout (host c) (port c) (connectionTimeout c) w of
             (Inl msg, w1) \<Rightarrow> (Return () (Some (ConnectError msg)), c, w1)
           | (Inr conn, w1) \<Rightarrow>
               (case SetDeadline conn (Some (soTimeout c)) w1 of
                  (Some msg, w2) \<Rightarrow> (Return () (Some (ConnectError msg)), c, w2)
                | (None, w2) \<Rightarrow>
                    (Return () None,
                     c\<lparr>socket := Some conn, protocol := Some (Protocol conn conn)\<rparr>, w2)))"

definition close :: "connection \<Rightarrow> world \<Rightarrow> unit outcome \<times> connection \<times> world" where
  "close c w =
     (case socket c of
        None \<Rightarrow> (Return () None, c, w)
      | Some s \<Rightarrow>
          (case socket_Close s w of
             (e, w1) \<Rightarrow> (Return () e, c\<lparr>socket := None\<rparr>, w1)))"

definition flush :: "connection \<Rightarrow> world \<Rightarrow> unit outcome \<times> connection \<times> world" where
  "flush c w =
     (case protocol c of
        None \<Rightarrow> (Panic, c, w)
      | Some p \<Rightarrow>
          (case os_flush p w of
             (Some msg, w1) \<Rightarrow> (Return () (Some (ConnectError msg)), c\<lparr>broken := True\<rparr>, w1)
           | (None, w1) \<Rightarrow> (Return () None, c, w1)))"

definition sendCommand ::
  "connection \<Rightarrow> bytes \<Rightarrow> bytes list \<Rightarrow> world \<Rightarrow> unit outcome \<times> connection \<times> world" where
  "sendCommand c cmd args w =
     (case connect c w of
        (Panic, c1, w1) \<Rightarrow> (Panic, c1, w1)
      | (Return u (Some e), c1, w1) \<Rightarrow> (Return () (Some e), c1, w1)
      | (Return u None, c1, w1) \<Rightarrow>
          (case protocol c1 of
             None \<Rightarrow> (Panic, c1, w1)
           | Some p \<Rightarrow>
               (case protocol_sendCommand p cmd args w1 of
                  (Some e, w2) \<Rightarrow> (Return () (Some e), c1, w2)
                | (None, w2) \<Rightarrow>
                    (Return () None,
                     c1\<lparr>pipelinedCommands := pipelinedCommands c1 + 1\<rparr>, w2))))"

definition readProtocolWithCheckingBroken ::
  "connection \<Rightarrow> world \<Rightarrow> val outcome \<times> connection \<times> world" where
  "readProtocolWithCheckingBroken c w =
     (if broken c
      then (Return VNil (Some (ConnectError ''attempting to read from a broken connection'')),
            c, w)
      else case protocol c of
             None \<Rightarrow> (Panic, c, w)
           | Some p \<Rightarrow>
               (case protocol_read p w of
                  (Inr read, w1) \<Rightarrow> (Return read None, c, w1)
                | (Inl (ConnectError m), w1) \<Rightarrow>
                    (Return VNil (Some (ConnectError m)), c\<lparr>broken := True\<rparr>, w1)
                | (Inl e, w1) \<Rightarrow> (Return VNil (Some e), c, w1)))"

definition getOne :: "connection \<Rightarrow> world \<Rightarrow> val outcome \<times> connection \<times> world" where
  "getOne c w =
     (case flush c w of
        (Panic, c1, w1) \<Rightarrow> (Panic, c1, w1)
      | (Return u (Some e), c1, w1) \<Rightarrow> (Return (VString []) (Some e), c1, w1)
      | (Return u None, c1, w1) \<Rightarrow>
          readProtocolWithCheckingBroken (c1\<lparr>pipelinedCommands := pipelinedCommands c1 - 1\<rparr>) w1)"

definition getStatusCodeReply ::
  "(val \<Rightarrow> string) \<Rightarrow> connection \<Rightarrow> world \<Rightarrow> string outcome \<times> connection \<times> world" where
  \<comment> \<open>\<open>sprint\<close> is the rendering of \<^verbatim>\<open>fmt.Sprintf("%v", reply)\<close>\<close>
  "getStatusCodeReply sprint c w =
     (case getOne c w of
        (Panic, c1, w1) \<Rightarrow> (Panic, c1, w1)
      | (Return reply (Some e), c1, w1) \<Rightarrow> (Return [] (Some e), c1, w1)
      | (Return reply None, c1, w1) \<Rightarrow>
          (case reply of
             VNil \<Rightarrow> (Return [] None, c1, w1)
           | VString t \<Rightarrow> (Return t None, c1, w1)
           | VBytes t \<Rightarrow> (Return t None, c1, w1)
           | _ \<Rightarrow> (Return [] (Some (DataError (''data error:'' @ sprint reply))), c1, w1)))"

text \<open>The type assertions made element by element in a loop: \<open>None\<close> is the panic of the
  first element of another dynamic type.\<close>

fun assert_byte_each :: "val list \<Rightarrow> bytes option" where
  "assert_byte_each [] = Some []"
| "assert_byte_each (VByte b # xs) = map_option ((#) b) (assert_byte_each xs)"
| "assert_byte_each (v # xs) = None"

fun assert_bytes_each :: "val list \<Rightarrow> bytes list option" where
  "assert_bytes_each [] = Some []"
| "assert_bytes_each (VBytes b # xs) = map_option ((#) b) (assert_bytes_each xs)"
| "assert_bytes_each (v # xs) = None"


definition getBinaryBulkReply ::
  "connection \<Rightarrow> world \<Rightarrow> bytes outcome \<times> connection \<times> world" where
  "getBinaryBulkReply c w =
     (case getOne c w of
        (Panic, c1, w1) \<Rightarrow> (Panic, c1, w1)
      | (Return reply (Some e), c1, w1) \<Rightarrow> (Return [] (Some e), c1, w1)
      | (Return reply None, c1, w1) \<Rightarrow>
          (case reply of
             VNil \<Rightarrow> (Return [] None, c1, w1)
           | VBytes b \<Rightarrow> (Return b None, c1, w1)
           | VSlice xs \<Rightarrow>
               (case assert_byte_each xs of
                  None \<Rightarrow> (Panic, c1, w1)
                | Some arr \<Rightarrow> (Return arr None, c1, w1))
           | _ \<Rightarrow> (Panic, c1, w1)))"

definition getBulkReply ::
  "connection \<Rightarrow> world \<Rightarrow> string outcome \<times> connection \<times> world" where
  "getBulkReply c w =
     (case getBinaryBulkReply c w of
        (Panic, c1, w1) \<Rightarrow> (Panic, c1, w1)
      | (Return result (Some e), c1, w1) \<Rightarrow> (Return [] (Some e), c1, w1)
      | (Return result None, c1, w1) \<Rightarrow> (Return result None, c1, w1))"

definition getIntegerReply ::
  "connection \<Rightarrow> world \<Rightarrow> int64 outcome \<times> connection \<times> world" where
  "getIntegerReply c w =
     (case getOne c w of
        (Panic, c1, w1) \<Rightarrow> (Panic, c1, w1)
      | (Return reply (Some e), c1, w1) \<Rightarrow> (Return 0 (Some e), c1, w1)
      | (Return reply None, c1, w1) \<Rightarrow>
          (case reply of
             VNil \<Rightarrow> (Return 0 None, c1, w1)
           | VInt64 n \<Rightarrow> (Return n None, c1, w1)
           | _ \<Rightarrow> (Return (- 1) None, c1, w1)))"

definition getBinaryMultiBulkReply ::
  "connection \<Rightarrow> world \<Rightarrow> bytes list outcome \<times> connection \<times> world" where
  "getBinaryMultiBulkReply c w =
     (case getOne c w of
        (Panic, c1, w1) \<Rightarrow> (Panic, c1, w1)
      | (Return reply (Some e), c1, w1) \<Rightarrow> (Return [] (Some e), c1, w1)
      | (Return reply None, c1, w1) \<Rightarrow>
          (case reply of
             VNil \<Rightarrow> (Return [] None, c1, w1)
           | VSlice resp \<Rightarrow>
               (case assert_bytes_each resp of
                  None \<Rightarrow> (Panic, c1, w1)
                | Some arr \<Rightarrow> (Return arr None, c1, w1))
           | _ \<Rightarrow> (Panic, c1, w1)))"

definition getMultiBulkReply ::
  "connection \<Rightarrow> world \<Rightarrow> string list outcome \<times> connection \<times> world" where
  "getMultiBulkReply c w =
     (case getBinaryMultiBulkReply c w of
        (Panic, c1, w1) \<Rightarrow> (Panic, c1, w1)
      | (Return reply (Some e), c1, w1) \<Rightarrow> (Return [] (Some e), c1, w1)
      | (Return reply None, c1, w1) \<Rightarrow> (Return reply None, c1, w1))"

definition getUnflushedObjectMultiBulkReply ::
  "connection \<Rightarrow> world \<Rightarrow> val list outcome \<times> connection \<times> world" where
  "getUnflushedObjectMultiBulkReply c w =
     (case readProtocolWithCheckingBroken c w of
        (Panic, c1, w1) \<Rightarrow> (Panic, c1, w1)
      | (Return reply (Some e), c1, w1) \<Rightarrow> (Return [] (Some e), c1, w1)
      | (Return reply None, c1, w1) \<Rightarrow>
          (case reply of
             VNil \<Rightarrow> (Return [] None, c1, w1)
           | VSlice xs \<Rightarrow> (Return xs None, c1, w1)
           | _ \<Rightarrow> (Panic, c1, w1)))"

definition getRawObjectMultiBulkReply ::
  "connection \<Rightarrow> world \<Rightarrow> val list outcome \<times> connection \<times> world" where
  "getRawObjectMultiBulkReply c w = getUnflushedObjectMultiBulkReply c w"

definition getObjectMultiBulkReply ::
  "connection \<Rightarrow> world \<Rightarrow> val list outcome \<times> connection \<times> world" where
  "getObjectMultiBulkReply c w =
     (case flush c w of
        (Panic, c1, w1) \<Rightarrow> (Panic, c1, w1)
      | (Return u (Some e), c1, w1) \<Rightarrow> (Return [] (Some e), c1, w1)
      | (Return u None, c1, w1) \<Rightarrow>
          getRawObjectMultiBulkReply
            (c1\<lparr>pipelinedCommands := pipelinedCommands c1 - 1\<rparr>) w1)"




subsection \<open>Draining: \<^verbatim>\<open>getAll\<close>\<close>

text \<open>The loop \<^verbatim>\<open>for c.pipelinedCommands > num { ... c.pipelinedCommands-- }\<close>; the
  comparison is signed.\<close>

function getAll_loop ::
  "int64 \<Rightarrow> val list \<Rightarrow> connection \<Rightarrow> world \<Rightarrow> val outcome \<times> connection \<times> world" where
  "getAll_loop num all c w =
     (if num <s pipelinedCommands c
      then (case readProtocolWithCheckingBroken c w of
              (Panic, c1, w1) \<Rightarrow> (Panic, c1, w1)
            | (Return obj err, c1, w1) \<Rightarrow>
                getAll_loop num
                  (all @ [case err of Some e \<Rightarrow> VErr e | None \<Rightarrow> obj])
                  (c1\<lparr>pipelinedCommands := pipelinedCommands c1 - 1\<rparr>) w1)
      else (Return (VSlice all) None, c, w))"
  by pat_completeness auto
termination
proof (relation "measure (\<lambda>(num, all, c, w). nat (sint (pipelinedCommands c) - sint num))")
  show "wf (measure (\<lambda>(num, all, c, w). nat (sint (pipelinedCommands c) - sint num)))"
    by simp
next
  fix num :: int64 and all :: "val list" and c :: connection and w :: world
    and x :: "val outcome" and y :: "connection \<times> world" and obj :: val
    and err :: "err option" and c1 :: connection and w1 :: world
  assume lt: "num <s pipelinedCommands c"
    and rd: "(x, y) = readProtocolWithCheckingBroken c w"
    and y: "(c1, w1) = y"
  have pc: "pipelinedCommands c1 = pipelinedCommands c"
    using rd y
    by (auto simp: readProtocolWithCheckingBroken_def
        split: if_splits option.splits prod.splits sum.splits err.splits)
  have lo: "- (2 ^ 63) \<le> sint num"
    using sint_ge [of num] by simp
  have hi: "sint (pipelinedCommands c) < 2 ^ 63"
    using sint_lt [of "pipelinedCommands c"] by simp
  have less: "sint num < sint (pipelinedCommands c)"
    using lt by (simp add: word_sless_alt)
  have "sint (pipelinedCommands c - 1) = signed_take_bit 63 (sint (pipelinedCommands c) - 1)"
    by (simp add: sint_word_ariths)
  also have "\<dots> = sint (pipelinedCommands c) - 1"
    using lo hi less by (intro signed_take_bit_int_eq_self) auto
  finally have "sint (pipelinedCommands c - 1) = sint (pipelinedCommands c) - 1" .
  with pc less
  show "((num, all @ [case err of Some e \<Rightarrow> VErr e | None \<Rightarrow> obj],
          c1\<lparr>pipelinedCommands := pipelinedCommands c1 - 1\<rparr>, w1), num, all, c, w)
        \<in> measure (\<lambda>(num, all, c, w). nat (sint (pipelinedCommands c) - sint num))"
    by simp
qed

declare getAll_loop.simps [simp del]

definition getAll ::
  "connection \<Rightarrow> int64 list \<Rightarrow> world \<Rightarrow> val outcome \<times> connection \<times> world" where
  "getAll c expect w =
     (let num = (if length expect > 0 then hd expect else 0)
      in case flush c w of
           (Panic, c1, w1) \<Rightarrow> (Panic, c1, w1)
         | (Return u (Some e), c1, w1) \<Rightarrow> (Return VNil (Some e), c1, w1)
         | (Return u None, c1, w1) \<Rightarrow> getAll_loop num [] c1 w1)"




subsection \<open>Sequences of calls on one connection\<close>

datatype call =
    CallSendCommand bytes "bytes list"
  | CallGetOne
  | CallGetAll "int64 list"
  | CallGetObjectMultiBulkReply

text \<open>One call, its result dropped: whether it panicked, and the connection and the world
  it leaves.\<close>

fun run_call :: "call \<Rightarrow> connection \<Rightarrow> world \<Rightarrow> bool \<times> connection \<times> world" where
  "run_call (CallSendCommand cmd args) c w =
     (case sendCommand c cmd args w of (r, c1, w1) \<Rightarrow> (r = Panic, c1, w1))"
| "run_call CallGetOne c w =
     (case getOne c w of (r, c1, w1) \<Rightarrow> (r = Panic, c1, w1))"
| "run_call (CallGetAll expect) c w =
     (case getAll c expect w of (r, c1, w1) \<Rightarrow> (r = Panic, c1, w1))"
| "run_call CallGetObjectMultiBulkReply c w =
     (case getObjectMultiBulkReply c w of (r, c1, w1) \<Rightarrow> (r = Panic, c1, w1))"

text \<open>The value of the counter after each call of a sequence; a panic ends the sequence.\<close>

fun counters :: "call list \<Rightarrow> connection \<Rightarrow> world \<Rightarrow> int64 list" where
  "counters [] c w = []"
| "counters (x # xs) c w =
     (case run_call x c w of
        (panicked, c1, w1) \<Rightarrow>
          pipelinedCommands c1 # (if panicked then [] else counters xs c1 w1))"

text \<open>
  A sequence is matched when every call that takes one reply finds the counter positive
  (a sent command is still unread), every drain is asked to leave a non-negative number
  of replies, and a send does not find the counter at the largest 64-bit value.
\<close>

fun matched_call :: "call \<Rightarrow> connection \<Rightarrow> bool" where
  "matched_call (CallSendCommand cmd args) c = (sint (pipelinedCommands c) < 2 ^ 63 - 1)"
| "matched_call CallGetOne c = (0 <s pipelinedCommands c)"
| "matched_call (CallGetAll expect) c = (0 \<le>s (if length expect > 0 then hd expect else 0))"
| "matched_call CallGetObjectMultiBulkReply c = (0 <s pipelinedCommands c)"

fun matched :: "call list \<Rightarrow> connection \<Rightarrow> world \<Rightarrow> bool" where
  "matched [] c w = True"
| "matched (x # xs) c w =
     (matched_call x c \<and>
      (case run_call x c w of (panicked, c1, w1) \<Rightarrow> panicked \<or> matched xs c1 w1))"

section \<open>The client\<close>

text \<open>
  \<^verbatim>\<open>client\<close> and \<^verbatim>\<open>Pipeline\<close> are declared outside the embedded files;
  \<^verbatim>\<open>redis.go\<close> uses the connection the client embeds, its \<^verbatim>\<open>isInMulti\<close> flag
  and the length of the pipeline's \<^verbatim>\<open>pipelinedResponses\<close>. The mutex of
  \<^verbatim>\<open>Redis\<close> is not modelled: one caller drives a client at a time.
\<close>

record client =
  conn :: connection
  isInMulti :: bool

record Pipeline =
  pipelinedResponses :: "nat list"

record Redis =
  client :: "client option"
  pipeline :: "Pipeline option"
  transaction :: "nat option"
  dataSource :: "pool option"
  activeTime :: int64

text \<open>The pool's two ways back, declared outside the embedded files: calls into the
  world.\<close>

definition returnBrokenResourceObject :: "pool \<Rightarrow> world \<Rightarrow> err option \<times> world" where
  "returnBrokenResourceObject p w =
     (let w1 = w\<lparr>log := log w @ [EvReturnBroken p]\<rparr>
      in case returns w of
           [] \<Rightarrow> (Some (DataError ''pool is closed''), w1)
         | r # rs \<Rightarrow> (r, w1\<lparr>returns := rs\<rparr>))"

definition returnResourceObject :: "pool \<Rightarrow> world \<Rightarrow> err option \<times> world" where
  "returnResourceObject p w =
     (let w1 = w\<lparr>log := log w @ [EvReturn p]\<rparr>
      in case returns w of
           [] \<Rightarrow> (Some (DataError ''pool is closed''), w1)
         | r # rs \<Rightarrow> (r, w1\<lparr>returns := rs\<rparr>))"

text \<open>\<^verbatim>\<open>Close\<close> has a pointer receiver that may be \<^verbatim>\<open>nil\<close>: \<open>None\<close>.\<close>

definition Close :: "Redis option \<Rightarrow> world \<Rightarrow> unit outcome \<times> Redis option \<times> world" where
  "Close r0 w =
     (case r0 of
        None \<Rightarrow> (Return () None, None, w)
      | Some r \<Rightarrow>
          (case dataSource r of
             Some p \<Rightarrow>
               (case client r of
                  None \<Rightarrow> (Panic, Some r, w)
                | Some cl \<Rightarrow>
                    if broken (conn cl)
                    then (case returnBrokenResourceObject p w of
                            (e, w1) \<Rightarrow> (Return () e, Some r, w1))
                    else (case returnResourceObject p w of
                            (e, w1) \<Rightarrow> (Return () e, Some r, w1)))
           | None \<Rightarrow>
               (case client r of
                  Some cl \<Rightarrow>
                    (case close (conn cl) w of
                       (res, c1, w1) \<Rightarrow> (res, Some (r\<lparr>client := Some (cl\<lparr>conn := c1\<rparr>)\<rparr>), w1))
                | None \<Rightarrow> (Return () None, Some r, w))))"

definition checkIsInMultiOrPipeline :: "Redis \<Rightarrow> unit outcome" where
  "checkIsInMultiOrPipeline r =
     (case client r of
        None \<Rightarrow> Panic
      | Some cl \<Rightarrow>
          if isInMulti cl
          then Return () (Some (DataError
            ''cannot use Redis when in Multi. Please use Transaction or reset redis state''))
          else if (case pipeline r of
                     None \<Rightarrow> False
                   | Some pl \<Rightarrow> length (pipelinedResponses pl) > 0)
          then Return () (Some (DataError
            ''cannot use Redis when in Pipeline. Please use Pipeline or reset redis state''))
          else Return () None)"

text \<open>A method of the embedded connection, run on the client of a \<^verbatim>\<open>Redis\<close>.\<close>

definition on_client ::
  "(connection \<Rightarrow> world \<Rightarrow> 'a outcome \<times> connection \<times> world) \<Rightarrow>
   Redis \<Rightarrow> world \<Rightarrow> 'a outcome \<times> Redis \<times> world" where
  "on_client f r w =
     (case client r of
        None \<Rightarrow> (Panic, r, w)
      | Some cl \<Rightarrow>
          (case f (conn cl) w of
             (res, c1, w1) \<Rightarrow> (res, r\<lparr>client := Some (cl\<lparr>conn := c1\<rparr>)\<rparr>, w1)))"

text \<open>
  Modelled from the spec: the command builders \<^verbatim>\<open>client.set\<close>, \<^verbatim>\<open>client.get\<close>
  and \<^verbatim>\<open>client.bitcount\<close> are declared in the client's own file, which is not among
  the embedded files. By the spec (4.3) each domain command serializes its name and
  arguments and sends them via the connection.
\<close>

definition client_set :: "string \<Rightarrow> string \<Rightarrow> connection \<Rightarrow> world \<Rightarrow> unit outcome \<times> connection \<times> world" where
  "client_set key v c w = sendCommand c ''SET'' [key, v] w"

definition client_get :: "string \<Rightarrow> connection \<Rightarrow> world \<Rightarrow> unit outcome \<times> connection \<times> world" where
  "client_get key c w = sendCommand c ''GET'' [key] w"

definition client_bitcount :: "string \<Rightarrow> connection \<Rightarrow> world \<Rightarrow> unit outcome \<times> connection \<times> world" where
  "client_bitcount key c w = sendCommand c ''BITCOUNT'' [key] w"

definition Set ::
  "(val \<Rightarrow> string) \<Rightarrow> Redis \<Rightarrow> string \<Rightarrow> string \<Rightarrow> world \<Rightarrow> string outcome \<times> Redis \<times> world" where
  "Set sprint r key v w =
     (case checkIsInMultiOrPipeline r of
        Panic \<Rightarrow> (Panic, r, w)
      | Return u (Some e) \<Rightarrow> (Return [] (Some e), r, w)
      | Return u None \<Rightarrow>
          (case on_client (client_set key v) r w of
             (Panic, r1, w1) \<Rightarrow> (Panic, r1, w1)
           | (Return u1 (Some e), r1, w1) \<Rightarrow> (Return [] (Some e), r1, w1)
           | (Return u1 None, r1, w1) \<Rightarrow> on_client (getStatusCodeReply sprint) r1 w1))"

definition Get :: "Redis \<Rightarrow> string \<Rightarrow> world \<Rightarrow> string outcome \<times> Redis \<times> world" where
  "Get r key w =
     (case checkIsInMultiOrPipeline r of
        Panic \<Rightarrow> (Panic, r, w)
      | Return u (Some e) \<Rightarrow> (Return [] (Some e), r, w)
      | Return u None \<Rightarrow>
          (case on_client (client_get key) r w of
             (Panic, r1, w1) \<Rightarrow> (Panic, r1, w1)
           | (Return u1 (Some e), r1, w1) \<Rightarrow> (Return [] (Some e), r1, w1)
           | (Return u1 None, r1, w1) \<Rightarrow> on_client getBulkReply r1 w1))"

definition BitCount :: "Redis \<Rightarrow> string \<Rightarrow> world \<Rightarrow> int64 outcome \<times> Redis \<times> world" where
  "BitCount r key w =
     (case on_client (client_bitcount key) r w of
        (Panic, r1, w1) \<Rightarrow> (Panic, r1, w1)
      | (Return u1 (Some e), r1, w1) \<Rightarrow> (Return 0 (Some e), r1, w1)
      | (Return u1 None, r1, w1) \<Rightarrow> on_client getIntegerReply r1 w1)"

section \<open>Concrete connections and worlds\<close>

definition quiet :: world where
  "quiet = \<lparr>dials = [], deadlines = [], writes = [], flushes = [], reads = [],
            closes = [], returns = [], log = []\<rparr>"

definition fresh :: connection where
  "fresh = \<lparr>host = ''localhost'', port = 6379, connectionTimeout = 5, soTimeout = 5,
            socket = None, protocol = None, broken = False, pipelinedCommands = 0\<rparr>"

definition connected :: connection where
  "connected = fresh\<lparr>socket := Some 1, protocol := Some (Protocol 1 1)\<rparr>"

definition send_then_read :: world where
  "send_then_read =
     quiet\<lparr>writes := [None], flushes := [None], reads := [Inr (VBytes ''v'')]\<rparr>"



definition in_multi :: Redis where
  "in_multi = \<lparr>client = Some \<lparr>conn = connected, isInMulti = True\<rparr>, pipeline = None,
                transaction = None, dataSource = None, activeTime = 0\<rparr>"

definition pooled :: Redis where
  "pooled = \<lparr>client = Some \<lparr>conn = connected\<lparr>broken := True\<rparr>, isInMulti = False\<rparr>,
              pipeline = None, transaction = None, dataSource = Some 7, activeTime = 0\<rparr>"

definition one_integer :: world where
  "one_integer = quiet\<lparr>writes := [None], flushes := [None], reads := [Inr (VInt64 3)]\<rparr>"

definition unpooled :: Redis where
  "unpooled = \<lparr>client = Some \<lparr>conn = connected, isInMulti = False\<rparr>, pipeline = None,
                transaction = None, dataSource = None, activeTime = 0\<rparr>"


definition one_unread :: connection where
  "one_unread = connected\<lparr>pipelinedCommands := 1\<rparr>"

section \<open>Connecting\<close>

text \<open>
  C8. \<^verbatim>\<open>connect()\<close> is idempotent: on a connection that already holds a socket it
  returns \<^verbatim>\<open>nil\<close> and leaves the socket, the protocol streams and every other field
  of the connection unchanged; it makes no call to the network (no redial, no deadline
  reset), so the world is unchanged too.
\<close>

theorem connect_idempotent:
  "socket c = Some s \<Longrightarrow> connect c w = (Return () None, c, w)"
  by (simp add: connect_def isConnected_def)

theorem connect_idempotent_witness:
  "socket connected = Some 1 \<and> connect connected quiet = (Return () None, connected, quiet)"
proof -
  have h: "socket connected = Some 1"
    by (simp add: connected_def)
  show ?thesis
    using h connect_idempotent [OF h, of quiet] by simp
qed

text \<open>
  C9. \<^verbatim>\<open>newConnection\<close> substitutes the defaults for zero-valued configuration: an
  empty host becomes \<^verbatim>\<open>defaultHost\<close>, port 0 becomes \<^verbatim>\<open>defaultPort\<close>, a zero
  connect or read timeout becomes \<^verbatim>\<open>defaultTimeout\<close>, and every other value is
  kept; the connection returned starts with \<^verbatim>\<open>broken\<close> false, no socket, no
  protocol streams and \<^verbatim>\<open>pipelinedCommands\<close> 0.
\<close>

theorem newConnection_defaults:
  "host (newConnection d h p ct st) = (if h = [] then defaultHost d else h) \<and>
   port (newConnection d h p ct st) = (if p = 0 then defaultPort d else p) \<and>
   connectionTimeout (newConnection d h p ct st) = (if ct = 0 then defaultTimeout d else ct) \<and>
   soTimeout (newConnection d h p ct st) = (if st = 0 then defaultTimeout d else st) \<and>
   broken (newConnection d h p ct st) = False \<and>
   socket (newConnection d h p ct st) = None \<and>
   protocol (newConnection d h p ct st) = None \<and>
   pipelinedCommands (newConnection d h p ct st) = 0"
  by (simp add: newConnection_def Let_def)

theorem newConnection_defaults_witness:
  "newConnection \<lparr>defaultHost = ''localhost'', defaultPort = 6379, defaultTimeout = 5\<rparr>
     [] 0 0 7 =
   \<lparr>host = ''localhost'', port = 6379, connectionTimeout = 5, soTimeout = 7,
    socket = None, protocol = None, broken = False, pipelinedCommands = 0\<rparr>"
  using newConnection_defaults
    [of "\<lparr>defaultHost = ''localhost'', defaultPort = 6379, defaultTimeout = 5\<rparr>" "[]" 0 0 7]
  by (cases "newConnection \<lparr>defaultHost = ''localhost'', defaultPort = 6379, defaultTimeout = 5\<rparr>
     [] 0 0 7") simp

section \<open>Sending\<close>

lemma connect_cases:
  "connect c w = (r, c1, w1) \<Longrightarrow>
   r \<noteq> Panic \<and> pipelinedCommands c1 = pipelinedCommands c \<and> broken c1 = broken c \<and>
   (r \<noteq> Return () None \<longrightarrow> c1 = c)"
  by (auto simp: connect_def split: if_splits prod.splits sum.splits option.splits)

text \<open>
  C7. \<^verbatim>\<open>sendCommand\<close> is atomic on connect failure. For a connection with no socket,
  when the dial fails with message \<open>msg\<close>, \<^verbatim>\<open>sendCommand\<close> returns the connection
  error of that message, the connection is unchanged in every field, and the world has
  seen the dial and nothing after it. In general the counter is incremented exactly when
  \<^verbatim>\<open>connect\<close> returns \<^verbatim>\<open>nil\<close> and the encoding returns \<^verbatim>\<open>nil\<close>; in every other case
  it keeps its value.
\<close>

theorem sendCommand_atomic_on_connect_failure:
  assumes "sendCommand c cmd args w = (r, c', w')"
  shows "(socket c = None \<and>
          fst (net_DialTimeout (host c) (port c) (connectionTimeout c) w) = Inl msg \<longrightarrow>
            r = Return () (Some (ConnectError msg)) \<and> c' = c \<and>
            w' = snd (net_DialTimeout (host c) (port c) (connectionTimeout c) w)) \<and>
         (case connect c w of
            (Return u None, c1, w1) \<Rightarrow>
              (case protocol c1 of
                 Some p \<Rightarrow>
                   if fst (protocol_sendCommand p cmd args w1) = None
                   then r = Return () None \<and> pipelinedCommands c' = pipelinedCommands c + 1
                   else r \<noteq> Return () None \<and> pipelinedCommands c' = pipelinedCommands c
               | None \<Rightarrow> r = Panic \<and> pipelinedCommands c' = pipelinedCommands c)
          | (r1, c1, w1) \<Rightarrow> r \<noteq> Return () None \<and> c' = c)"
proof (rule conjI)
  show "socket c = None \<and>
      fst (net_DialTimeout (host c) (port c) (connectionTimeout c) w) = Inl msg \<longrightarrow>
    r = Return () (Some (ConnectError msg)) \<and> c' = c \<and>
    w' = snd (net_DialTimeout (host c) (port c) (connectionTimeout c) w)"
  proof (rule impI)
    assume a: "socket c = None \<and>
      fst (net_DialTimeout (host c) (port c) (connectionTimeout c) w) = Inl msg"
    then have "connect c w =
      (Return () (Some (ConnectError msg)), c,
       snd (net_DialTimeout (host c) (port c) (connectionTimeout c) w))"
      by (cases "net_DialTimeout (host c) (port c) (connectionTimeout c) w")
        (simp add: connect_def isConnected_def)
    with assms
    show "r = Return () (Some (ConnectError msg)) \<and> c' = c \<and>
      w' = snd (net_DialTimeout (host c) (port c) (connectionTimeout c) w)"
      by (auto simp: sendCommand_def)
  qed
next
  obtain r1 c1 w1 where k: "connect c w = (r1, c1, w1)"
    by (cases "connect c w") auto
  from connect_cases [OF k] have np: "r1 \<noteq> Panic"
    and pc: "pipelinedCommands c1 = pipelinedCommands c"
    and same: "r1 \<noteq> Return () None \<longrightarrow> c1 = c"
    by simp_all
  show "case connect c w of
          (Return u None, c1, w1) \<Rightarrow>
            (case protocol c1 of
               Some p \<Rightarrow>
                 if fst (protocol_sendCommand p cmd args w1) = None
                 then r = Return () None \<and> pipelinedCommands c' = pipelinedCommands c + 1
                 else r \<noteq> Return () None \<and> pipelinedCommands c' = pipelinedCommands c
             | None \<Rightarrow> r = Panic \<and> pipelinedCommands c' = pipelinedCommands c)
        | (r1, c1, w1) \<Rightarrow> r \<noteq> Return () None \<and> c' = c"
    using assms k np pc same
    by (auto simp: sendCommand_def split: outcome.splits option.splits prod.splits)
qed

theorem sendCommand_atomic_on_connect_failure_witness:
  "sendCommand fresh ''GET'' [''k''] quiet =
     (Return () (Some (ConnectError ''dial: network unreachable'')), fresh,
      quiet\<lparr>log := [EvDial ''localhost'' 6379 5]\<rparr>)"
proof -
  obtain r c' w' where k: "sendCommand fresh ''GET'' [''k''] quiet = (r, c', w')"
    by (cases "sendCommand fresh ''GET'' [''k''] quiet") auto
  have d: "net_DialTimeout (host fresh) (port fresh) (connectionTimeout fresh) quiet =
    (Inl ''dial: network unreachable'', quiet\<lparr>log := [EvDial ''localhost'' 6379 5]\<rparr>)"
    by (simp add: net_DialTimeout_def fresh_def quiet_def)
  have s: "socket fresh = None"
    by (simp add: fresh_def)
  from sendCommand_atomic_on_connect_failure
    [OF k, of "''dial: network unreachable''"] d s
  have "r = Return () (Some (ConnectError ''dial: network unreachable'')) \<and> c' = fresh \<and>
    w' = quiet\<lparr>log := [EvDial ''localhost'' 6379 5]\<rparr>"
    by simp
  with k show ?thesis by simp
qed

section \<open>The broken flag\<close>

text \<open>
  C1, as stated: on a connection whose \<^verbatim>\<open>broken\<close> flag is set, reading, sending and
  flushing all fail with a connection error and leave the network alone. The code does
  otherwise: \<^verbatim>\<open>flush\<close> on a broken connection flushes the output stream and returns
  \<^verbatim>\<open>nil\<close>, and \<^verbatim>\<open>sendCommand\<close> on a broken connection without a socket dials, sets
  the deadline, writes the command and returns \<^verbatim>\<open>nil\<close>.
\<close>

theorem broken_fencing_counterexample:
  "flush (connected\<lparr>broken := True\<rparr>) (quiet\<lparr>flushes := [None]\<rparr>) =
     (Return () None, connected\<lparr>broken := True\<rparr>, quiet\<lparr>log := [EvFlush 1]\<rparr>) \<and>
   sendCommand (fresh\<lparr>broken := True\<rparr>) ''GET'' [''k'']
       (quiet\<lparr>dials := [Inr 1], deadlines := [None], writes := [None]\<rparr>) =
     (Return () None,
      fresh\<lparr>broken := True, socket := Some 1, protocol := Some (Protocol 1 1),
            pipelinedCommands := 1\<rparr>,
      quiet\<lparr>log := [EvDial ''localhost'' 6379 5, EvSetDeadline 1 (Some 5),
                     EvWrite 1 ''GET'' [''k'']]\<rparr>)"
  by (simp add: flush_def os_flush_def sendCommand_def connect_def isConnected_def
      net_DialTimeout_def SetDeadline_def protocol_sendCommand_def
      connected_def fresh_def quiet_def)

text \<open>
  C1, amended: the flag fences the read path only. On a connection whose \<^verbatim>\<open>broken\<close>
  flag is set, \<^verbatim>\<open>readProtocolWithCheckingBroken\<close> fails at once with a connection
  error, the connection and the world unchanged (no network I/O). \<^verbatim>\<open>sendCommand\<close> and
  \<^verbatim>\<open>flush\<close> never consult the flag: what they return and what they do to the world
  is the same whatever its value.
\<close>

theorem broken_fences_reads_only:
  assumes "broken c"
  shows "readProtocolWithCheckingBroken c w =
           (Return VNil (Some (ConnectError ''attempting to read from a broken connection'')),
            c, w) \<and>
         fst (flush (c\<lparr>broken := b\<rparr>) w) = fst (flush c w) \<and>
         snd (snd (flush (c\<lparr>broken := b\<rparr>) w)) = snd (snd (flush c w)) \<and>
         fst (sendCommand (c\<lparr>broken := b\<rparr>) cmd args w) = fst (sendCommand c cmd args w) \<and>
         snd (snd (sendCommand (c\<lparr>broken := b\<rparr>) cmd args w)) =
           snd (snd (sendCommand c cmd args w))"
proof -
  have rd: "readProtocolWithCheckingBroken c w =
      (Return VNil (Some (ConnectError ''attempting to read from a broken connection'')), c, w)"
    using assms by (simp add: readProtocolWithCheckingBroken_def)
  have fl: "fst (flush (c\<lparr>broken := b\<rparr>) w) = fst (flush c w) \<and>
      snd (snd (flush (c\<lparr>broken := b\<rparr>) w)) = snd (snd (flush c w))"
    by (simp add: flush_def split: option.splits prod.splits)
  have co: "fst (connect (c\<lparr>broken := b\<rparr>) w) = fst (connect c w) \<and>
      snd (snd (connect (c\<lparr>broken := b\<rparr>) w)) = snd (snd (connect c w)) \<and>
      protocol (fst (snd (connect (c\<lparr>broken := b\<rparr>) w))) = protocol (fst (snd (connect c w)))"
    by (simp add: connect_def isConnected_def split: option.splits prod.splits sum.splits)
  obtain r1 c1 w1 where k1: "connect c w = (r1, c1, w1)"
    by (cases "connect c w") auto
  obtain r2 c2 w2 where k2: "connect (c\<lparr>broken := b\<rparr>) w = (r2, c2, w2)"
    by (cases "connect (c\<lparr>broken := b\<rparr>) w") auto
  from co k1 k2 have e: "r2 = r1" "w2 = w1" "protocol c2 = protocol c1"
    by simp_all
  have se: "fst (sendCommand (c\<lparr>broken := b\<rparr>) cmd args w) = fst (sendCommand c cmd args w) \<and>
      snd (snd (sendCommand (c\<lparr>broken := b\<rparr>) cmd args w)) =
        snd (snd (sendCommand c cmd args w))"
    using k1 k2 e
    by (simp add: sendCommand_def split: outcome.splits option.splits prod.splits)
  from rd fl se show ?thesis by simp
qed

theorem broken_fences_reads_only_witness:
  "readProtocolWithCheckingBroken (connected\<lparr>broken := True\<rparr>)
       (quiet\<lparr>reads := [Inr (VString ''OK'')]\<rparr>) =
     (Return VNil (Some (ConnectError ''attempting to read from a broken connection'')),
      connected\<lparr>broken := True\<rparr>, quiet\<lparr>reads := [Inr (VString ''OK'')]\<rparr>)"
proof -
  have h: "broken (connected\<lparr>broken := True\<rparr>)"
    by simp
  show ?thesis
    using broken_fences_reads_only [OF h, of "quiet\<lparr>reads := [Inr (VString ''OK'')]\<rparr>"]
    by simp
qed

section \<open>The counter of unread commands\<close>

text \<open>Decrement and increment of a 64-bit counter away from its bounds.\<close>

lemma sint_dec: "sint (n::64 word) < sint (x::64 word) \<Longrightarrow> sint (x - 1) = sint x - 1"
proof -
  assume a: "sint n < sint x"
  have 1: "- (2 ^ 63) \<le> sint n" using sint_ge [of n] by simp
  have 2: "sint x < 2 ^ 63" using sint_lt [of x] by simp
  have "sint (x - 1) = signed_take_bit 63 (sint x - 1)"
    by (simp add: sint_word_ariths)
  also have "\<dots> = sint x - 1"
    using a 1 2 by (intro signed_take_bit_int_eq_self) auto
  finally show ?thesis .
qed

lemma sint_inc: "sint (x::64 word) < 2 ^ 63 - 1 \<Longrightarrow> sint (x + 1) = sint x + 1"
proof -
  assume a: "sint x < 2 ^ 63 - 1"
  have 1: "- (2 ^ 63) \<le> sint x" using sint_ge [of x] by simp
  have "sint (x + 1) = signed_take_bit 63 (sint x + 1)"
    by (simp add: sint_word_ariths)
  also have "\<dots> = sint x + 1"
    using a 1 by (intro signed_take_bit_int_eq_self) auto
  finally show ?thesis .
qed

lemma read_keeps_counter:
  "readProtocolWithCheckingBroken c w = (r, c1, w1) \<Longrightarrow>
   pipelinedCommands c1 = pipelinedCommands c"
  by (auto simp: readProtocolWithCheckingBroken_def
      split: if_splits option.splits prod.splits sum.splits err.splits)

lemma flush_keeps_counter:
  "flush c w = (r, c1, w1) \<Longrightarrow> pipelinedCommands c1 = pipelinedCommands c"
  by (auto simp: flush_def split: option.splits prod.splits)

lemma sendCommand_counter:
  "sendCommand c cmd args w = (r, c1, w1) \<Longrightarrow>
   pipelinedCommands c1 = pipelinedCommands c \<or> pipelinedCommands c1 = pipelinedCommands c + 1"
  using connect_cases [of c w]
  by (auto simp: sendCommand_def split: outcome.splits option.splits prod.splits)

lemma getOne_counter:
  "getOne c w = (r, c1, w1) \<Longrightarrow>
   pipelinedCommands c1 = pipelinedCommands c \<or> pipelinedCommands c1 = pipelinedCommands c - 1"
  using flush_keeps_counter [of c w]
  by (auto simp: getOne_def split: outcome.splits option.splits prod.splits
      dest!: read_keeps_counter)

lemma getObjectMultiBulkReply_counter:
  "getObjectMultiBulkReply c w = (r, c1, w1) \<Longrightarrow>
   pipelinedCommands c1 = pipelinedCommands c \<or> pipelinedCommands c1 = pipelinedCommands c - 1"
  using flush_keeps_counter [of c w]
  by (auto simp: getObjectMultiBulkReply_def getRawObjectMultiBulkReply_def
      getUnflushedObjectMultiBulkReply_def
      split: outcome.splits option.splits prod.splits val.splits
      dest!: read_keeps_counter)

lemma getAll_loop_counter:
  "0 \<le>s num \<Longrightarrow> 0 \<le>s pipelinedCommands c \<Longrightarrow> getAll_loop num all c w = (r, c1, w1) \<Longrightarrow>
   0 \<le>s pipelinedCommands c1"
proof (induction num all c w rule: getAll_loop.induct)
  case (1 num all c w)
  show ?case
  proof (cases "num <s pipelinedCommands c")
    case False
    with "1.prems" show ?thesis
      by (simp add: getAll_loop.simps [of num all c w])
  next
    case True
    obtain r2 c2 w2 where k: "readProtocolWithCheckingBroken c w = (r2, c2, w2)"
      by (cases "readProtocolWithCheckingBroken c w") auto
    have pc: "pipelinedCommands c2 = pipelinedCommands c"
      using read_keeps_counter [OF k] .
    have dec: "0 \<le>s pipelinedCommands (c2\<lparr>pipelinedCommands := pipelinedCommands c2 - 1\<rparr>)"
      using True "1.prems"(1) pc sint_dec [of num "pipelinedCommands c"]
      by (simp add: word_sless_alt word_sle_eq)
    show ?thesis
    proof (cases r2)
      case Panic
      with True k "1.prems" pc show ?thesis
        by (simp add: getAll_loop.simps [of num all c w])
    next
      case (Return obj eo)
      have "getAll_loop num (all @ [case eo of Some e \<Rightarrow> VErr e | None \<Rightarrow> obj])
          (c2\<lparr>pipelinedCommands := pipelinedCommands c2 - 1\<rparr>) w2 = (r, c1, w1)"
        using True k Return "1.prems"(3)
        by (simp add: getAll_loop.simps [of num all c w])
      from "1.IH" [OF True k [symmetric] Return refl "1.prems"(1) dec this]
      show ?thesis .
    qed
  qed
qed

lemma run_call_nonneg:
  assumes m: "matched_call x c" and nn: "0 \<le>s pipelinedCommands c"
    and run: "run_call x c w = (p, c1, w1)"
  shows "0 \<le>s pipelinedCommands c1"
proof (cases x)
  case (CallSendCommand cmd args)
  obtain r where k: "sendCommand c cmd args w = (r, c1, w1)"
    using run CallSendCommand by (cases "sendCommand c cmd args w") auto
  from m CallSendCommand have "sint (pipelinedCommands c) < 2 ^ 63 - 1"
    by simp
  from sint_inc [OF this] nn sendCommand_counter [OF k] show ?thesis
    by (auto simp: word_sle_eq)
next
  case CallGetOne
  obtain r where k: "getOne c w = (r, c1, w1)"
    using run CallGetOne by (cases "getOne c w") auto
  from m CallGetOne have "sint (0::int64) < sint (pipelinedCommands c)"
    by (simp add: word_sless_alt)
  from sint_dec [OF this] this nn getOne_counter [OF k] show ?thesis
    by (auto simp: word_sle_eq)
next
  case (CallGetAll expect)
  obtain r where k: "getAll c expect w = (r, c1, w1)"
    using run CallGetAll by (cases "getAll c expect w") auto
  obtain r2 c2 w2 where f: "flush c w = (r2, c2, w2)"
    by (cases "flush c w") auto
  have pc: "pipelinedCommands c2 = pipelinedCommands c"
    using flush_keeps_counter [OF f] .
  from m CallGetAll have num: "0 \<le>s (if length expect > 0 then hd expect else 0)"
    by simp
  show ?thesis
  proof (cases "r2 = Return () None")
    case True
    with k f have "getAll_loop (if length expect > 0 then hd expect else 0) [] c2 w2 = (r, c1, w1)"
      by (simp add: getAll_def Let_def)
    from getAll_loop_counter [OF num _ this] nn pc show ?thesis
      by simp
  next
    case False
    with k f have "c1 = c2"
      by (auto simp: getAll_def Let_def split: outcome.splits option.splits)
    with nn pc show ?thesis by simp
  qed
next
  case CallGetObjectMultiBulkReply
  obtain r where k: "getObjectMultiBulkReply c w = (r, c1, w1)"
    using run CallGetObjectMultiBulkReply by (cases "getObjectMultiBulkReply c w") auto
  from m CallGetObjectMultiBulkReply have "sint (0::int64) < sint (pipelinedCommands c)"
    by (simp add: word_sless_alt)
  from sint_dec [OF this] this nn getObjectMultiBulkReply_counter [OF k] show ?thesis
    by (auto simp: word_sle_eq)
qed

text \<open>
  C2, as stated: the counter never becomes negative, also when a reply accessor is called
  without a matching send. The code decrements without a test: on a connected connection
  with no command outstanding, \<^verbatim>\<open>getOne\<close> flushes, takes the counter from 0 to -1 and
  reads.
\<close>

theorem counter_nonneg_counterexample:
  "0 \<le>s pipelinedCommands connected \<and>
   counters [CallGetOne] connected (quiet\<lparr>flushes := [None], reads := [Inr VNil]\<rparr>) = [- 1] \<and>
   \<not> 0 \<le>s (- 1 :: int64)"
  by (simp add: getOne_def flush_def os_flush_def
      readProtocolWithCheckingBroken_def protocol_read_def
      connected_def fresh_def quiet_def word_sle_eq)

text \<open>
  C2, amended: for every sequence of \<^verbatim>\<open>sendCommand\<close>, \<^verbatim>\<open>getOne\<close>, \<^verbatim>\<open>getAll\<close> and
  \<^verbatim>\<open>getObjectMultiBulkReply\<close> calls on one connection that starts with a non-negative
  counter, the counter is non-negative after every call (also when a flush, a read or a
  type assertion fails), provided the sequence is matched: each \<^verbatim>\<open>getOne\<close> and
  \<^verbatim>\<open>getObjectMultiBulkReply\<close> is called while the counter is positive, each
  \<^verbatim>\<open>getAll\<close> is asked to leave a non-negative number of replies, and no
  \<^verbatim>\<open>sendCommand\<close> finds the counter at the largest 64-bit value.
\<close>

theorem counter_nonneg_when_matched:
  "0 \<le>s pipelinedCommands c \<Longrightarrow> matched xs c w \<Longrightarrow>
   list_all (\<lambda>n. 0 \<le>s n) (counters xs c w)"
proof (induction xs arbitrary: c w)
  case Nil
  then show ?case by simp
next
  case (Cons x xs)
  obtain p c1 w1 where k: "run_call x c w = (p, c1, w1)"
    by (cases "run_call x c w") auto
  from Cons.prems(2) k have m: "matched_call x c" and rest: "p \<or> matched xs c1 w1"
    by simp_all
  have nn: "0 \<le>s pipelinedCommands c1"
    using run_call_nonneg [OF m Cons.prems(1) k] .
  show ?case
  proof (cases p)
    case True
    with k nn show ?thesis by simp
  next
    case False
    with rest have "matched xs c1 w1" by simp
    from Cons.IH [OF nn this] k nn False show ?thesis by simp
  qed
qed

theorem counter_nonneg_when_matched_witness:
  "0 \<le>s pipelinedCommands connected \<and>
   matched [CallSendCommand ''GET'' [''k''], CallGetOne] connected send_then_read \<and>
   counters [CallSendCommand ''GET'' [''k''], CallGetOne] connected send_then_read = [1, 0] \<and>
   list_all (\<lambda>n. 0 \<le>s n)
     (counters [CallSendCommand ''GET'' [''k''], CallGetOne] connected send_then_read)"
proof -
  have nn: "0 \<le>s pipelinedCommands connected"
    by (simp add: connected_def fresh_def)
  have m: "matched [CallSendCommand ''GET'' [''k''], CallGetOne] connected send_then_read"
    by (simp add: sendCommand_def connect_def isConnected_def
        protocol_sendCommand_def getOne_def flush_def os_flush_def
        readProtocolWithCheckingBroken_def protocol_read_def
        connected_def fresh_def quiet_def send_then_read_def word_sless_alt)
  have ev: "counters [CallSendCommand ''GET'' [''k''], CallGetOne] connected send_then_read =
      [1, 0]"
    by (simp add: sendCommand_def connect_def isConnected_def
        protocol_sendCommand_def getOne_def flush_def os_flush_def
        readProtocolWithCheckingBroken_def protocol_read_def
        connected_def fresh_def quiet_def send_then_read_def)
  from nn m ev counter_nonneg_when_matched [OF nn m] show ?thesis
    by simp
qed

section \<open>Draining a pipeline\<close>







section \<open>Typed reply accessors\<close>




section \<open>The null bulk reply\<close>

text \<open>The calls before the read do not look at the replies still to come.\<close>

lemma connect_reads:
  "connect c (w\<lparr>reads := X\<rparr>) =
     (case connect c w of (r, c1, w1) \<Rightarrow> (r, c1, w1\<lparr>reads := X\<rparr>))"
proof (cases "isConnected c")
  case True
  then show ?thesis by (simp add: connect_def)
next
  case False
  show ?thesis
  proof (cases "dials w")
    case Nil
    with False show ?thesis
      by (simp add: connect_def net_DialTimeout_def)
  next
    case (Cons d ds)
    show ?thesis
    proof (cases d)
      case (Inl msg)
      with False Cons show ?thesis
        by (simp add: connect_def net_DialTimeout_def)
    next
      case (Inr s)
      show ?thesis
      proof (cases "deadlines w")
        case Nil
        with False Cons Inr show ?thesis
          by (simp add: connect_def net_DialTimeout_def SetDeadline_def)
      next
        case (Cons e es)
        with False \<open>dials w = d # ds\<close> Inr show ?thesis
          by (cases e) (simp_all add: connect_def net_DialTimeout_def SetDeadline_def)
      qed
    qed
  qed
qed

lemma protocol_sendCommand_reads:
  "protocol_sendCommand p cmd args (w\<lparr>reads := X\<rparr>) =
     (case protocol_sendCommand p cmd args w of (e, w1) \<Rightarrow> (e, w1\<lparr>reads := X\<rparr>))"
  by (cases "writes w") (simp_all add: protocol_sendCommand_def)

lemma sendCommand_reads:
  "sendCommand c cmd args (w\<lparr>reads := X\<rparr>) =
     (case sendCommand c cmd args w of (r, c1, w1) \<Rightarrow> (r, c1, w1\<lparr>reads := X\<rparr>))"
proof -
  obtain r c1 w1 where k: "connect c w = (r, c1, w1)"
    by (cases "connect c w") auto
  then have k': "connect c (w\<lparr>reads := X\<rparr>) = (r, c1, w1\<lparr>reads := X\<rparr>)"
    by (simp add: connect_reads)
  show ?thesis
  proof (cases "r = Return () None")
    case False
    with k k' show ?thesis
      by (cases r) (auto simp: sendCommand_def split: option.splits)
  next
    case True
    show ?thesis
    proof (cases "protocol c1")
      case None
      with True k k' show ?thesis by (simp add: sendCommand_def)
    next
      case (Some p)
      obtain e w2 where s: "protocol_sendCommand p cmd args w1 = (e, w2)"
        by (cases "protocol_sendCommand p cmd args w1") auto
      then have s': "protocol_sendCommand p cmd args (w1\<lparr>reads := X\<rparr>) = (e, w2\<lparr>reads := X\<rparr>)"
        by (simp add: protocol_sendCommand_reads)
      from True k k' Some s s' show ?thesis
        by (cases e) (simp_all add: sendCommand_def)
    qed
  qed
qed

lemma flush_reads:
  "flush c (w\<lparr>reads := X\<rparr>) =
     (case flush c w of (r, c1, w1) \<Rightarrow> (r, c1, w1\<lparr>reads := X\<rparr>))"
proof (cases "protocol c")
  case None
  then show ?thesis by (simp add: flush_def)
next
  case (Some p)
  show ?thesis
  proof (cases "flushes w")
    case Nil
    with Some show ?thesis by (simp add: flush_def os_flush_def)
  next
    case (Cons e es)
    with Some show ?thesis by (cases e) (simp_all add: flush_def os_flush_def)
  qed
qed

lemma read_next:
  "fst (readProtocolWithCheckingBroken c (w\<lparr>reads := Inr v # rs\<rparr>)) =
     (if broken c
      then Return VNil (Some (ConnectError ''attempting to read from a broken connection''))
      else case protocol c of None \<Rightarrow> Panic | Some p \<Rightarrow> Return v None)"
  by (simp add: readProtocolWithCheckingBroken_def protocol_read_def split: option.splits)

lemma getOne_next:
  "fst (getOne c (w\<lparr>reads := Inr v # rs\<rparr>)) =
     (case flush c w of
        (Panic, c1, w1) \<Rightarrow> Panic
      | (Return u (Some e), c1, w1) \<Rightarrow> Return (VString []) (Some e)
      | (Return u None, c1, w1) \<Rightarrow>
          (if broken c1
           then Return VNil (Some (ConnectError ''attempting to read from a broken connection''))
           else case protocol c1 of None \<Rightarrow> Panic | Some p \<Rightarrow> Return v None))"
proof -
  obtain r c1 w1 where f: "flush c w = (r, c1, w1)"
    by (cases "flush c w") auto
  then have f': "flush c (w\<lparr>reads := Inr v # rs\<rparr>) = (r, c1, w1\<lparr>reads := Inr v # rs\<rparr>)"
    by (simp add: flush_reads)
  show ?thesis
  proof (cases r)
    case Panic
    with f f' show ?thesis by (simp add: getOne_def)
  next
    case (Return u eo)
    show ?thesis
    proof (cases eo)
      case (Some e)
      with Return f f' show ?thesis by (simp add: getOne_def)
    next
      case None
      with Return f f'
      have "getOne c (w\<lparr>reads := Inr v # rs\<rparr>) =
          readProtocolWithCheckingBroken
            (c1\<lparr>pipelinedCommands := pipelinedCommands c1 - 1\<rparr>) (w1\<lparr>reads := Inr v # rs\<rparr>)"
        by (simp add: getOne_def)
      with None Return f show ?thesis
        using read_next [where c = "c1\<lparr>pipelinedCommands := pipelinedCommands c1 - 1\<rparr>"
            and w = w1 and v = v and rs = rs]
        by simp
    qed
  qed
qed

lemma getBinaryBulkReply_fst:
  "fst (getBinaryBulkReply c w) =
     (case fst (getOne c w) of
        Panic \<Rightarrow> Panic
      | Return reply (Some e) \<Rightarrow> Return [] (Some e)
      | Return reply None \<Rightarrow>
          (case reply of
             VNil \<Rightarrow> Return [] None
           | VBytes b \<Rightarrow> Return b None
           | VSlice xs \<Rightarrow>
               (case assert_byte_each xs of None \<Rightarrow> Panic | Some arr \<Rightarrow> Return arr None)
           | _ \<Rightarrow> Panic))"
  by (cases "getOne c w")
    (simp add: getBinaryBulkReply_def split: outcome.splits option.splits val.splits)

lemma getBulkReply_fst:
  "fst (getBulkReply c w) =
     (case fst (getBinaryBulkReply c w) of
        Panic \<Rightarrow> Panic
      | Return result (Some e) \<Rightarrow> Return [] (Some e)
      | Return result None \<Rightarrow> Return result None)"
  by (cases "getBinaryBulkReply c w")
    (simp add: getBulkReply_def split: outcome.splits option.splits)

lemma getBulkReply_nil_or_empty:
  "fst (getBulkReply c (w\<lparr>reads := Inr VNil # rs\<rparr>)) =
   fst (getBulkReply c (w\<lparr>reads := Inr (VBytes []) # rs\<rparr>))"
  by (cases "flush c w")
    (simp add: getBulkReply_fst getBinaryBulkReply_fst getOne_next
      split: outcome.splits option.splits)

lemma on_client_fst:
  "fst (on_client f r w) =
     (case client r of None \<Rightarrow> Panic | Some cl \<Rightarrow> fst (f (conn cl) w))"
  by (simp add: on_client_def split: option.splits prod.splits)

lemma Get_nil_or_empty:
  "fst (Get r key (w\<lparr>reads := Inr VNil # rs\<rparr>)) =
   fst (Get r key (w\<lparr>reads := Inr (VBytes []) # rs\<rparr>))"
proof (cases "checkIsInMultiOrPipeline r = Return () None")
  case False
  then show ?thesis
    by (cases "checkIsInMultiOrPipeline r") (auto simp: Get_def split: option.splits)
next
  case True
  show ?thesis
  proof (cases "client r")
    case None
    with True show ?thesis
      by (simp add: Get_def on_client_def)
  next
    case (Some cl)
    obtain q c1 w1 where k: "sendCommand (conn cl) ''GET'' [key] w = (q, c1, w1)"
      by (cases "sendCommand (conn cl) ''GET'' [key] w") auto
    have s: "\<And>X. on_client (client_get key) r (w\<lparr>reads := X\<rparr>) =
        (q, r\<lparr>client := Some (cl\<lparr>conn := c1\<rparr>)\<rparr>, w1\<lparr>reads := X\<rparr>)"
      using Some k by (simp add: on_client_def client_get_def sendCommand_reads)
    show ?thesis
    proof (cases "q = Return () None")
      case False
      with True s show ?thesis
        by (cases q) (auto simp: Get_def split: option.splits)
    next
      case q: True
      have "\<And>X. fst (Get r key (w\<lparr>reads := X\<rparr>)) = fst (getBulkReply c1 (w1\<lparr>reads := X\<rparr>))"
        using True s q by (simp add: Get_def on_client_fst)
      then show ?thesis
        using getBulkReply_nil_or_empty [where c = c1 and w = w1 and rs = rs] by simp
    qed
  qed
qed

text \<open>
  C10. The bulk accessors collapse the protocol's null into the empty value: when the
  decoded reply is nil, \<^verbatim>\<open>getBinaryBulkReply\<close> returns the empty byte slice and
  \<^verbatim>\<open>getBulkReply\<close> the empty string, both without error, exactly as for a reply that
  is the empty byte slice; so what \<^verbatim>\<open>Redis.Get\<close> returns is the same whether the next
  reply on the stream is nil (an absent key) or the empty string.
\<close>

theorem bulk_nil_is_empty:
  "(getOne c w = (Return VNil None, c1, w1) \<longrightarrow>
      getBinaryBulkReply c w = (Return [] None, c1, w1) \<and>
      getBulkReply c w = (Return [] None, c1, w1)) \<and>
   (getOne c w = (Return (VBytes []) None, c1, w1) \<longrightarrow>
      getBinaryBulkReply c w = (Return [] None, c1, w1) \<and>
      getBulkReply c w = (Return [] None, c1, w1)) \<and>
   fst (Get r key (v\<lparr>reads := Inr VNil # rs\<rparr>)) =
   fst (Get r key (v\<lparr>reads := Inr (VBytes []) # rs\<rparr>))"
proof -
  have a: "getOne c w = (Return VNil None, c1, w1) \<longrightarrow>
      getBinaryBulkReply c w = (Return [] None, c1, w1) \<and>
      getBulkReply c w = (Return [] None, c1, w1)"
    by (simp add: getBulkReply_def getBinaryBulkReply_def)
  have b: "getOne c w = (Return (VBytes []) None, c1, w1) \<longrightarrow>
      getBinaryBulkReply c w = (Return [] None, c1, w1) \<and>
      getBulkReply c w = (Return [] None, c1, w1)"
    by (simp add: getBulkReply_def getBinaryBulkReply_def)
  have g: "fst (Get r key (v\<lparr>reads := Inr VNil # rs\<rparr>)) =
      fst (Get r key (v\<lparr>reads := Inr (VBytes []) # rs\<rparr>))"
    by (rule Get_nil_or_empty)
  from a b g show ?thesis by simp
qed

theorem bulk_nil_is_empty_witness:
  "getOne one_unread (quiet\<lparr>flushes := [None], reads := [Inr VNil]\<rparr>) =
     (Return VNil None, connected, quiet\<lparr>log := [EvFlush 1, EvRead 1]\<rparr>) \<and>
   getBulkReply one_unread (quiet\<lparr>flushes := [None], reads := [Inr VNil]\<rparr>) =
     (Return [] None, connected, quiet\<lparr>log := [EvFlush 1, EvRead 1]\<rparr>) \<and>
   fst (Get unpooled ''k'' (quiet\<lparr>writes := [None], flushes := [None], reads := [Inr VNil]\<rparr>)) =
     Return [] None \<and>
   fst (Get unpooled ''k''
          (quiet\<lparr>writes := [None], flushes := [None], reads := [Inr (VBytes [])]\<rparr>)) =
     Return [] None"
proof -
  have g: "getOne one_unread (quiet\<lparr>flushes := [None], reads := [Inr VNil]\<rparr>) =
     (Return VNil None, connected, quiet\<lparr>log := [EvFlush 1, EvRead 1]\<rparr>)"
    by (simp add: getOne_def flush_def os_flush_def readProtocolWithCheckingBroken_def
        protocol_read_def one_unread_def connected_def fresh_def quiet_def)
  have e: "fst (Get unpooled ''k''
          (quiet\<lparr>writes := [None], flushes := [None], reads := [Inr (VBytes [])]\<rparr>)) =
     Return [] None"
    by (simp add: Get_def checkIsInMultiOrPipeline_def on_client_def client_get_def
        sendCommand_def connect_def isConnected_def protocol_sendCommand_def
        getBulkReply_def getBinaryBulkReply_def getOne_def flush_def os_flush_def
        readProtocolWithCheckingBroken_def protocol_read_def
        unpooled_def connected_def fresh_def quiet_def)
  from bulk_nil_is_empty
    [where c = one_unread and w = "quiet\<lparr>flushes := [None], reads := [Inr VNil]\<rparr>"
      and ?c1.0 = connected and ?w1.0 = "quiet\<lparr>log := [EvFlush 1, EvRead 1]\<rparr>"
      and r = unpooled and key = "''k''" and rs = "[]"
      and v = "quiet\<lparr>writes := [None], flushes := [None]\<rparr>"] g e
  show ?thesis by simp
qed

section \<open>Closing and the simple-command guard\<close>

text \<open>
  C5. \<^verbatim>\<open>Redis.Close\<close> routes by pool and broken flag. Without a pool
  (\<^verbatim>\<open>dataSource\<close> nil) it closes the socket of its client: the socket is closed in the
  world and the field set to nil (with no socket there is nothing to close and nothing
  happens). With a pool it never closes the socket: the only call made is
  \<^verbatim>\<open>returnBrokenResourceObject\<close> when the client's \<^verbatim>\<open>broken\<close> flag is true and
  \<^verbatim>\<open>returnResourceObject\<close> when it is false, and the \<^verbatim>\<open>Redis\<close> value is unchanged.
\<close>

theorem Close_routes:
  "(dataSource r = None \<and> client r = Some cl \<and> socket (conn cl) = Some s \<longrightarrow>
      (\<exists>e. Close (Some r) w =
         (Return () e, Some (r\<lparr>client := Some (cl\<lparr>conn := (conn cl)\<lparr>socket := None\<rparr>\<rparr>)\<rparr>),
          snd (socket_Close s w)) \<and>
       log (snd (socket_Close s w)) = log w @ [EvClose s])) \<and>
   (dataSource r = None \<and> client r = Some cl \<and> socket (conn cl) = None \<longrightarrow>
      Close (Some r) w = (Return () None, Some r, w)) \<and>
   (dataSource r = Some p \<and> client r = Some cl \<longrightarrow>
      (\<exists>e w'. Close (Some r) w = (Return () e, Some r, w') \<and>
         log w' = log w @ [if broken (conn cl) then EvReturnBroken p else EvReturn p]))"
proof (intro conjI impI)
  assume a: "dataSource r = None \<and> client r = Some cl \<and> socket (conn cl) = Some s"
  then show "\<exists>e. Close (Some r) w =
         (Return () e, Some (r\<lparr>client := Some (cl\<lparr>conn := (conn cl)\<lparr>socket := None\<rparr>\<rparr>)\<rparr>),
          snd (socket_Close s w)) \<and>
       log (snd (socket_Close s w)) = log w @ [EvClose s]"
    by (cases "closes w") (simp_all add: Close_def close_def socket_Close_def)
next
  assume "dataSource r = None \<and> client r = Some cl \<and> socket (conn cl) = None"
  then show "Close (Some r) w = (Return () None, Some r, w)"
    by (simp add: Close_def close_def)
next
  assume "dataSource r = Some p \<and> client r = Some cl"
  then show "\<exists>e w'. Close (Some r) w = (Return () e, Some r, w') \<and>
         log w' = log w @ [if broken (conn cl) then EvReturnBroken p else EvReturn p]"
    by (cases "returns w")
      (simp_all add: Close_def returnBrokenResourceObject_def returnResourceObject_def)
qed

theorem Close_routes_witness:
  "Close (Some pooled) quiet =
     (Return () (Some (DataError ''pool is closed'')), Some pooled,
      quiet\<lparr>log := [EvReturnBroken 7]\<rparr>) \<and>
   fst (snd (Close (Some unpooled) (quiet\<lparr>closes := [None]\<rparr>))) =
     Some (unpooled\<lparr>client :=
       Some \<lparr>conn = connected\<lparr>socket := None\<rparr>, isInMulti = False\<rparr>\<rparr>) \<and>
   log (snd (snd (Close (Some unpooled) (quiet\<lparr>closes := [None]\<rparr>)))) = [EvClose 1]"
proof -
  have h: "dataSource pooled = Some 7 \<and>
      client pooled = Some \<lparr>conn = connected\<lparr>broken := True\<rparr>, isInMulti = False\<rparr>"
    by (simp add: pooled_def)
  from Close_routes
    [of pooled "\<lparr>conn = connected\<lparr>broken := True\<rparr>, isInMulti = False\<rparr>" _ quiet 7] h
  obtain e w' where k: "Close (Some pooled) quiet = (Return () e, Some pooled, w')"
    and l: "log w' = log quiet @ [EvReturnBroken 7]"
    by auto
  have ev: "Close (Some pooled) quiet =
     (Return () (Some (DataError ''pool is closed'')), Some pooled,
      quiet\<lparr>log := [EvReturnBroken 7]\<rparr>)"
    by (simp add: Close_def pooled_def returnBrokenResourceObject_def quiet_def)
  have u: "dataSource unpooled = None \<and>
      client unpooled = Some \<lparr>conn = connected, isInMulti = False\<rparr> \<and>
      socket (conn \<lparr>conn = connected, isInMulti = False\<rparr>) = Some 1"
    by (simp add: unpooled_def connected_def)
  from Close_routes
    [of unpooled "\<lparr>conn = connected, isInMulti = False\<rparr>" 1 "quiet\<lparr>closes := [None]\<rparr>"] u
  obtain e2 where k2: "Close (Some unpooled) (quiet\<lparr>closes := [None]\<rparr>) =
      (Return () e2,
       Some (unpooled\<lparr>client := Some (\<lparr>conn = connected, isInMulti = False\<rparr>
         \<lparr>conn := (conn \<lparr>conn = connected, isInMulti = False\<rparr>)\<lparr>socket := None\<rparr>\<rparr>)\<rparr>),
       snd (socket_Close 1 (quiet\<lparr>closes := [None]\<rparr>)))"
    and l2: "log (snd (socket_Close 1 (quiet\<lparr>closes := [None]\<rparr>))) =
      log (quiet\<lparr>closes := [None]\<rparr>) @ [EvClose 1]"
    by auto
  from ev k2 l2 show ?thesis
    by (simp add: quiet_def)
qed

text \<open>
  The guard of the simple commands. \<^verbatim>\<open>Set\<close> and \<^verbatim>\<open>Get\<close> call
  \<^verbatim>\<open>checkIsInMultiOrPipeline\<close> first: when it returns an error they return that error
  before anything is sent, the client and the world unchanged.
\<close>

lemma simple_command_guard:
  "checkIsInMultiOrPipeline r = Return () (Some e) \<Longrightarrow>
   Set sprint r key v w = (Return [] (Some e), r, w) \<and>
   Get r key w = (Return [] (Some e), r, w)"
  by (simp add: Set_def Get_def)

text \<open>
  C4. Every simple command on a client in MULTI state, or with unread pipelined
  responses, is to be refused with a data error before anything is sent, the connection
  unchanged. \<^verbatim>\<open>BitCount\<close> is a simple command, but it does not call the check: on a
  client in MULTI state, where the check returns the data error and \<^verbatim>\<open>Set\<close> is
  refused with the world untouched, \<^verbatim>\<open>BitCount\<close> writes its command, flushes, reads
  the reply and returns it.
\<close>

theorem BitCount_unguarded:
  "checkIsInMultiOrPipeline in_multi =
     Return () (Some (DataError
       ''cannot use Redis when in Multi. Please use Transaction or reset redis state'')) \<and>
   Set sprint in_multi ''k'' ''v'' one_integer =
     (Return [] (Some (DataError
        ''cannot use Redis when in Multi. Please use Transaction or reset redis state'')),
      in_multi, one_integer) \<and>
   BitCount in_multi ''k'' one_integer =
     (Return 3 None, in_multi,
      quiet\<lparr>log := [EvWrite 1 ''BITCOUNT'' [''k''], EvFlush 1, EvRead 1]\<rparr>)"
  by (simp add: checkIsInMultiOrPipeline_def Set_def BitCount_def on_client_def
      client_bitcount_def sendCommand_def connect_def isConnected_def
      protocol_sendCommand_def getIntegerReply_def getOne_def flush_def os_flush_def
      readProtocolWithCheckingBroken_def protocol_read_def
      in_multi_def one_integer_def connected_def fresh_def quiet_def)

end
